theory Spec2Isabelle
  imports Main
begin

section \<open>The email assistant of notebooks/agent.ipynb\<close>

text \<open>
  The notebook builds an email assistant on a graph framework: a triage router classifies
  an email, and a response agent (the nodes \<open>llm_call\<close> and \<open>tool_handler\<close>, joined by the
  routing function \<open>should_continue\<close>) calls tools until the model asks for \<open>Done\<close>.
  The chat model, the schema validation of the \<open>@tool\<close> decorator, the prompt templates and
  the helpers of \<open>email_assistant.utils\<close> are not part of the notebook: they are the fields
  of the record \<open>env\<close>, and every theorem holds for all of them.
\<close>

subsection \<open>Exceptions\<close>

text \<open>
  Each Python exception that the notebook's code can raise is a constructor.
  \<open>KeyError k\<close> is the failed lookup \<open>tools_by_name[k]\<close>; \<open>ValueError s\<close> is the
  \<open>raise ValueError(s)\<close> of \<open>triage_router\<close>; \<open>IndexError\<close> is \<open>messages[-1]\<close> on an empty
  list; \<open>AttributeError\<close> is \<open>.tool_calls\<close> on a message that is not an AI message.
  \<open>ValidationError\<close> and \<open>ModelError\<close> are raised by the collaborators (argument validation
  of a tool, the model call). \<open>BranchError\<close> is the graph engine finding no entry for the
  value of a routing function in the mapping given to \<open>add_conditional_edges\<close>.
\<close>

datatype error =
    KeyError string
  | ValueError string
  | IndexError
  | AttributeError
  | ValidationError string
  | ModelError string
  | BranchError

subsection \<open>Messages and tool calls\<close>

text \<open>JSON values, the arguments of a tool call as the model produces them.\<close>

datatype jval =
    JNull
  | JBool bool
  | JInt int
  | JStr string
  | JList "jval list"
  | JDict "(string \<times> jval) list"

type_synonym args = "(string \<times> jval) list"

text \<open>A tool call is the dictionary \<open>{"name": ..., "args": ..., "id": ...}\<close>.\<close>

record tool_call =
  name :: string
  args :: args
  call_id :: string

text \<open>
  The message classes of the framework. A dictionary with a \<open>role\<close> key that a node
  returns is converted to the class of its role when it is added to the state:
  \<open>"user"\<close> to \<open>HumanMessage\<close>, \<open>"tool"\<close> to \<open>ToolMessage\<close>. Only \<open>AIMessage\<close> has the
  attribute \<open>tool_calls\<close>.
\<close>

datatype message =
    SystemMessage string
  | HumanMessage string
  | AIMessage string "tool_call list"
  | ToolMessage string string

fun tool_calls :: "message \<Rightarrow> error + tool_call list" where
  "tool_calls (AIMessage c tcs) = Inr tcs"
| "tool_calls (SystemMessage c) = Inl AttributeError"
| "tool_calls (HumanMessage c) = Inl AttributeError"
| "tool_calls (ToolMessage c i) = Inl AttributeError"

fun is_assistant :: "message \<Rightarrow> bool" where
  "is_assistant (AIMessage c tcs) = True"
| "is_assistant (SystemMessage c) = False"
| "is_assistant (HumanMessage c) = False"
| "is_assistant (ToolMessage c i) = False"

fun is_tool :: "message \<Rightarrow> bool" where
  "is_tool (ToolMessage c i) = True"
| "is_tool (SystemMessage c) = False"
| "is_tool (HumanMessage c) = False"
| "is_tool (AIMessage c tcs) = False"

text \<open>The attribute \<open>tool_call_id\<close>, which only a tool message has.\<close>

fun tool_call_id :: "message \<Rightarrow> string option" where
  "tool_call_id (ToolMessage c i) = Some i"
| "tool_call_id (SystemMessage c) = None"
| "tool_call_id (HumanMessage c) = None"
| "tool_call_id (AIMessage c tcs) = None"

text \<open>\<open>messages[-1]\<close>: the last element, IndexError on the empty list.\<close>

fun last_message :: "message list \<Rightarrow> error + message" where
  "last_message [] = Inl IndexError"
| "last_message (m # ms) = Inr (last (m # ms))"

subsection \<open>State\<close>

record email =
  author :: string
  to :: string
  subject :: string
  email_thread :: string

text \<open>
  \<open>class State(MessagesState)\<close>: the key \<open>messages\<close> with the appending reducer, the
  key \<open>email_input\<close>, and \<open>classification_decision\<close>, absent until the router sets it.
\<close>

record state =
  messages :: "message list"
  email_input :: email
  classification_decision :: "string option"

text \<open>
  A node returns a dictionary with a subset of the keys; \<open>None\<close> is an absent key.
  The reducer of \<open>messages\<close> appends the returned messages (they carry fresh identifiers,
  so none replaces an earlier message); every other key is overwritten.
\<close>

record update =
  u_messages :: "message list option"
  u_classification_decision :: "string option"

definition apply_update :: "state \<Rightarrow> update \<Rightarrow> state" where
  "apply_update st u =
     st\<lparr>messages := (case u_messages u of None \<Rightarrow> messages st
                                        | Some ms \<Rightarrow> messages st @ ms),
        classification_decision := (case u_classification_decision u of
                                      None \<Rightarrow> classification_decision st
                                    | Some c \<Rightarrow> Some c)\<rparr>"

subsection \<open>The collaborators\<close>

record RouterSchema =
  reasoning :: string
  classification :: string

record datetime =
  year :: int
  month :: int
  day :: int

text \<open>
  \<open>llm_router\<close> and \<open>llm_with_tools\<close> are the two model calls of the agent notebook, and
  \<open>model_with_tools\<close> is the model of the LangGraph 101 notebook; the last two return the
  content and the tool calls of the AI message. The four \<open>schema\<close> fields are the argument
  validation that \<open>@tool\<close> puts before each tool body. \<open>strftime_date\<close> is
  \<open>strftime("%A, %B %d, %Y")\<close>. The remaining fields are the prompt templates and the
  helpers imported from \<open>email_assistant\<close>.
\<close>

record env =
  llm_router :: "message list \<Rightarrow> error + RouterSchema"
  llm_with_tools :: "message list \<Rightarrow> error + (string \<times> tool_call list)"
  model_with_tools :: "message list \<Rightarrow> error + (string \<times> tool_call list)"
  write_email_schema :: "args \<Rightarrow> error + (string \<times> string \<times> string)"
  schedule_meeting_schema ::
    "args \<Rightarrow> error + (string list \<times> string \<times> int \<times> datetime \<times> int)"
  check_calendar_availability_schema :: "args \<Rightarrow> error + string"
  Done_schema :: "args \<Rightarrow> error + bool"
  strftime_date :: "datetime \<Rightarrow> string"
  parse_email :: "email \<Rightarrow> error + (string \<times> string \<times> string \<times> string)"
  format_email_markdown :: "string \<Rightarrow> string \<Rightarrow> string \<Rightarrow> string \<Rightarrow> string"
  triage_system_prompt :: "string \<Rightarrow> string \<Rightarrow> string"
  triage_user_prompt :: "string \<Rightarrow> string \<Rightarrow> string \<Rightarrow> string \<Rightarrow> string"
  agent_system_prompt :: "string \<Rightarrow> string \<Rightarrow> string \<Rightarrow> string \<Rightarrow> string"
  default_background :: string
  default_triage_instructions :: string
  AGENT_TOOLS_PROMPT :: string
  default_response_preferences :: string
  default_cal_preferences :: string

subsection \<open>Tool definitions\<close>

text \<open>Python's \<open>str\<close> of an integer and of a boolean, as an f-string renders them.\<close>

function str_nat :: "nat \<Rightarrow> string" where
  "str_nat n =
     (if n < 10 then [char_of (48 + n)]
      else str_nat (n div 10) @ [char_of (48 + n mod 10)])"
  by pat_completeness auto
termination
  by (relation "measure (\<lambda>n. n)") auto

definition str_int :: "int \<Rightarrow> string" where
  "str_int i = (if i < 0 then CHR ''-'' # str_nat (nat (- i)) else str_nat (nat i))"

definition str_bool :: "bool \<Rightarrow> string" where
  "str_bool b = (if b then ''True'' else ''False'')"

definition write_email :: "string \<Rightarrow> string \<Rightarrow> string \<Rightarrow> string" where
  "write_email to' subject' content =
     ''Email sent to '' @ to' @ '' with subject '' @ [CHR 0x27] @ subject' @ [CHR 0x27]
       @ '' and content: '' @ content"

definition schedule_meeting ::
  "env \<Rightarrow> string list \<Rightarrow> string \<Rightarrow> int \<Rightarrow> datetime \<Rightarrow> int \<Rightarrow> string" where
  "schedule_meeting e attendees subject' duration_minutes preferred_day start_time =
     (let date_str = strftime_date e preferred_day
      in ''Meeting '' @ [CHR 0x27] @ subject' @ [CHR 0x27] @ '' scheduled on '' @ date_str
           @ '' at '' @ str_int start_time @ '' for '' @ str_int duration_minutes
           @ '' minutes with '' @ str_nat (length attendees) @ '' attendees'')"

definition check_calendar_availability :: "string \<Rightarrow> string" where
  "check_calendar_availability day' =
     ''Available times on '' @ day' @ '': 9:00 AM, 2:00 PM, 4:00 PM''"

text \<open>
  \<open>Done\<close> is a model class with one field; as a tool it builds the object, whose text
  form \<open>done=True\<close> becomes the content of the tool message.
\<close>

definition Done :: "bool \<Rightarrow> string" where
  "Done done' = ''done='' @ str_bool done'"

text \<open>The text after the echoed day in the answer of \<open>check_calendar_availability\<close>.\<close>

definition open_slots :: "string list" where
  "open_slots = [''9:00 AM'', ''2:00 PM'', ''4:00 PM'']"

fun join_comma :: "string list \<Rightarrow> string" where
  "join_comma [] = []"
| "join_comma [s] = s"
| "join_comma (s # t # ss) = s @ '', '' @ join_comma (t # ss)"

subsection \<open>The tool registry\<close>

datatype tool = Write_email | Schedule_meeting | Check_calendar_availability | Done_tool

fun tool_name :: "tool \<Rightarrow> string" where
  "tool_name Write_email = ''write_email''"
| "tool_name Schedule_meeting = ''schedule_meeting''"
| "tool_name Check_calendar_availability = ''check_calendar_availability''"
| "tool_name Done_tool = ''Done''"

definition tools :: "tool list" where
  "tools = [Write_email, Schedule_meeting, Check_calendar_availability, Done_tool]"

text \<open>
  \<open>tools_by_name = {tool.name: tool for tool in tools}\<close>: the dictionary is filled from
  left to right, a later tool replacing an earlier one of the same name.
\<close>

definition tools_by_name :: "string \<rightharpoonup> tool" where
  "tools_by_name = foldl (\<lambda>m t. m(tool_name t \<mapsto> t)) Map.empty tools"

text \<open>\<open>tool.invoke(args)\<close>: the arguments are validated, then the body runs.\<close>

fun invoke :: "env \<Rightarrow> tool \<Rightarrow> args \<Rightarrow> error + string" where
  "invoke e Write_email a =
     (case write_email_schema e a of
        Inl err \<Rightarrow> Inl err
      | Inr (to', subject', content) \<Rightarrow> Inr (write_email to' subject' content))"
| "invoke e Schedule_meeting a =
     (case schedule_meeting_schema e a of
        Inl err \<Rightarrow> Inl err
      | Inr (attendees, subject', duration_minutes, preferred_day, start_time) \<Rightarrow>
          Inr (schedule_meeting e attendees subject' duration_minutes preferred_day
                 start_time))"
| "invoke e Check_calendar_availability a =
     (case check_calendar_availability_schema e a of
        Inl err \<Rightarrow> Inl err
      | Inr day' \<Rightarrow> Inr (check_calendar_availability day'))"
| "invoke e Done_tool a =
     (case Done_schema e a of
        Inl err \<Rightarrow> Inl err
      | Inr done' \<Rightarrow> Inr (Done done'))"

subsection \<open>The nodes of the response agent\<close>

text \<open>
  \<open>llm_call\<close> puts the system prompt before the messages of the state, calls the model and
  returns its message under the key \<open>messages\<close>.
\<close>

definition llm_call :: "env \<Rightarrow> state \<Rightarrow> error + update" where
  "llm_call e st =
     (case llm_with_tools e
             (SystemMessage
                (agent_system_prompt e (AGENT_TOOLS_PROMPT e) (default_background e)
                   (default_response_preferences e) (default_cal_preferences e))
              # messages st) of
        Inl err \<Rightarrow> Inl err
      | Inr (content, tcs) \<Rightarrow>
          Inr \<lparr>u_messages = Some [AIMessage content tcs],
               u_classification_decision = None\<rparr>)"

text \<open>
  The loop of \<open>tool_handler\<close> over the tool calls, with the list \<open>result\<close> it appends to.
  A name that is not a key of \<open>tools_by_name\<close> raises KeyError; an error of the tool ends
  the loop as the exception does.
\<close>

fun run_tool_calls :: "env \<Rightarrow> tool_call list \<Rightarrow> message list \<Rightarrow> error + message list" where
  "run_tool_calls e [] result = Inr result"
| "run_tool_calls e (tc # tcs) result =
     (case tools_by_name (name tc) of
        None \<Rightarrow> Inl (KeyError (name tc))
      | Some t \<Rightarrow>
          (case invoke e t (args tc) of
             Inl err \<Rightarrow> Inl err
           | Inr observation \<Rightarrow>
               run_tool_calls e tcs (result @ [ToolMessage observation (call_id tc)])))"

definition tool_handler :: "env \<Rightarrow> state \<Rightarrow> error + update" where
  "tool_handler e st =
     (case last_message (messages st) of
        Inl err \<Rightarrow> Inl err
      | Inr m \<Rightarrow>
          (case tool_calls m of
             Inl err \<Rightarrow> Inl err
           | Inr tcs \<Rightarrow>
               (case run_tool_calls e tcs [] of
                  Inl err \<Rightarrow> Inl err
                | Inr result \<Rightarrow>
                    Inr \<lparr>u_messages = Some result, u_classification_decision = None\<rparr>)))"

subsection \<open>Conditional routing\<close>

text \<open>
  The two values \<open>should_continue\<close> can return, \<open>"tool_handler"\<close> and \<open>END\<close>. The function
  has no \<open>return\<close> after the \<open>if\<close>, so for an empty list of tool calls it returns Python's
  \<open>None\<close>, here the \<open>None\<close> of the option type. The \<open>for\<close> loop returns in both branches
  of its body, so it never reaches a second tool call.
\<close>

datatype route = Route_tool_handler | Route_END

fun should_continue_loop :: "tool_call list \<Rightarrow> route option" where
  "should_continue_loop [] = None"
| "should_continue_loop (tc # tcs) =
     (if name tc = ''Done'' then Some Route_END else Some Route_tool_handler)"

definition should_continue :: "state \<Rightarrow> error + route option" where
  "should_continue st =
     (case last_message (messages st) of
        Inl err \<Rightarrow> Inl err
      | Inr m \<Rightarrow>
          (case tool_calls m of
             Inl err \<Rightarrow> Inl err
           | Inr tcs \<Rightarrow> (if tcs \<noteq> [] then Inr (should_continue_loop tcs) else Inr None)))"

subsection \<open>The agent graph\<close>

text \<open>
  The graph has the nodes \<open>llm_call\<close> and \<open>tool_handler\<close>, the edge from \<open>START\<close> to
  \<open>llm_call\<close>, the conditional edges from \<open>llm_call\<close> and the edge from \<open>tool_handler\<close>
  back to \<open>llm_call\<close>. \<open>conditional_edges\<close> is the mapping
  \<open>{"tool_handler": "tool_handler", END: END}\<close>; \<open>None\<close> is not one of its keys.
\<close>

datatype agent_node = Llm_call | Tool_handler | END

fun conditional_edges :: "route option \<Rightarrow> agent_node option" where
  "conditional_edges (Some Route_tool_handler) = Some Tool_handler"
| "conditional_edges (Some Route_END) = Some END"
| "conditional_edges None = None"

text \<open>
  One step of the engine: run the node, add its update to the state, follow its edge.
  For \<open>llm_call\<close> the routing function is applied to the updated state. \<open>END\<close> has no step.
\<close>

fun agent_step :: "env \<Rightarrow> agent_node \<Rightarrow> state \<Rightarrow> error + (agent_node \<times> state)" where
  "agent_step e Llm_call st =
     (case llm_call e st of
        Inl err \<Rightarrow> Inl err
      | Inr u \<Rightarrow>
          (case should_continue (apply_update st u) of
             Inl err \<Rightarrow> Inl err
           | Inr r \<Rightarrow>
               (case conditional_edges r of
                  None \<Rightarrow> Inl BranchError
                | Some nd \<Rightarrow> Inr (nd, apply_update st u))))"
| "agent_step e Tool_handler st =
     (case tool_handler e st of
        Inl err \<Rightarrow> Inl err
      | Inr u \<Rightarrow> Inr (Llm_call, apply_update st u))"
| "agent_step e END st = Inr (END, st)"

text \<open>
  A run of the graph. The loop of the source is unbounded, so the run takes a number of
  steps it may use: \<open>Finished\<close> is the run that reached \<open>END\<close>, \<open>Raised\<close> the run that an
  exception ended, \<open>Out_of_steps\<close> the run that used all its steps before either.
\<close>

datatype run_result = Finished state | Raised error | Out_of_steps

fun run_graph :: "env \<Rightarrow> nat \<Rightarrow> agent_node \<Rightarrow> state \<Rightarrow> run_result" where
  "run_graph e n END st = Finished st"
| "run_graph e 0 Llm_call st = Out_of_steps"
| "run_graph e 0 Tool_handler st = Out_of_steps"
| "run_graph e (Suc n) Llm_call st =
     (case agent_step e Llm_call st of
        Inl err \<Rightarrow> Raised err
      | Inr (nd, st') \<Rightarrow> run_graph e n nd st')"
| "run_graph e (Suc n) Tool_handler st =
     (case agent_step e Tool_handler st of
        Inl err \<Rightarrow> Raised err
      | Inr (nd, st') \<Rightarrow> run_graph e n nd st')"

definition agent :: "env \<Rightarrow> nat \<Rightarrow> state \<Rightarrow> run_result" where
  "agent e n st = run_graph e n Llm_call st"

subsection \<open>The triage router and the overall workflow\<close>

text \<open>
  \<open>Command(goto=..., update=...)\<close>: the node names its successor itself.
\<close>

datatype goto_target = Goto_response_agent | Goto_END

record command =
  goto :: goto_target
  cmd_update :: update

definition triage_router :: "env \<Rightarrow> state \<Rightarrow> error + command" where
  "triage_router e st =
     (case parse_email e (email_input st) of
        Inl err \<Rightarrow> Inl err
      | Inr (author', to', subject', email_thread') \<Rightarrow>
          (let system_prompt =
                 triage_system_prompt e (default_background e) (default_triage_instructions e);
               user_prompt = triage_user_prompt e author' to' subject' email_thread'
           in case llm_router e [SystemMessage system_prompt, HumanMessage user_prompt] of
                Inl err \<Rightarrow> Inl err
              | Inr result \<Rightarrow>
                  (if classification result = ''respond'' then
                     Inr \<lparr>goto = Goto_response_agent,
                          cmd_update =
                            \<lparr>u_messages =
                               Some [HumanMessage
                                       (''Respond to the email: '' @ [CHR 0x0A, CHR 0x0A]
                                          @ format_email_markdown e subject' author' to'
                                              email_thread')],
                             u_classification_decision = Some (classification result)\<rparr>\<rparr>
                   else if classification result = ''ignore'' then
                     Inr \<lparr>goto = Goto_END,
                          cmd_update =
                            \<lparr>u_messages = None,
                             u_classification_decision = Some (classification result)\<rparr>\<rparr>
                   else if classification result = ''notify'' then
                     Inr \<lparr>goto = Goto_END,
                          cmd_update =
                            \<lparr>u_messages = None,
                             u_classification_decision = Some (classification result)\<rparr>\<rparr>
                   else
                     Inl (ValueError
                            (''Invalid classification: '' @ classification result)))))"

text \<open>
  The overall workflow has the nodes \<open>triage_router\<close> and \<open>response_agent\<close> (the compiled
  agent graph) and the edge from \<open>START\<close> to \<open>triage_router\<close>. The router's command selects
  \<open>response_agent\<close> or \<open>END\<close>; \<open>response_agent\<close> has no outgoing edge, so the workflow ends
  with the state the agent ends with (the messages that the agent hands back keep their
  identifiers, so the reducer adds only the new ones). The \<open>print\<close> calls of the router
  write to the console and are left out.
\<close>

definition overall_workflow :: "env \<Rightarrow> nat \<Rightarrow> state \<Rightarrow> run_result" where
  "overall_workflow e n st =
     (case triage_router e st of
        Inl err \<Rightarrow> Raised err
      | Inr c \<Rightarrow>
          (case goto c of
             Goto_END \<Rightarrow> Finished (apply_update st (cmd_update c))
           | Goto_response_agent \<Rightarrow> agent e n (apply_update st (cmd_update c))))"

subsection \<open>The workflow of the LangGraph 101 notebook\<close>

text \<open>
  The introductory notebook has its own \<open>call_llm\<close>, \<open>run_tool\<close> and \<open>should_continue\<close> on a
  state that is the message list alone. Its model is bound to the single tool
  \<open>write_email\<close>; \<open>run_tool\<close> calls that tool for every tool call without looking at the
  name. The edges are \<open>START\<close> to \<open>call_llm\<close>, the conditional edges from \<open>call_llm\<close>, and
  \<open>run_tool\<close> to \<open>END\<close>.
\<close>

datatype route_101 = Route_run_tool | Route_END_101

definition call_llm :: "env \<Rightarrow> message list \<Rightarrow> error + message list" where
  "call_llm e msgs =
     (case model_with_tools e msgs of
        Inl err \<Rightarrow> Inl err
      | Inr (content, tcs) \<Rightarrow> Inr [AIMessage content tcs])"

fun run_tool_loop :: "env \<Rightarrow> tool_call list \<Rightarrow> message list \<Rightarrow> error + message list" where
  "run_tool_loop e [] result = Inr result"
| "run_tool_loop e (tc # tcs) result =
     (case invoke e Write_email (args tc) of
        Inl err \<Rightarrow> Inl err
      | Inr observation \<Rightarrow>
          run_tool_loop e tcs (result @ [ToolMessage observation (call_id tc)]))"

definition run_tool :: "env \<Rightarrow> message list \<Rightarrow> error + message list" where
  "run_tool e msgs =
     (case last_message msgs of
        Inl err \<Rightarrow> Inl err
      | Inr m \<Rightarrow>
          (case tool_calls m of
             Inl err \<Rightarrow> Inl err
           | Inr tcs \<Rightarrow> run_tool_loop e tcs []))"

definition should_continue_101 :: "message list \<Rightarrow> error + route_101" where
  "should_continue_101 msgs =
     (case last_message msgs of
        Inl err \<Rightarrow> Inl err
      | Inr m \<Rightarrow>
          (case tool_calls m of
             Inl err \<Rightarrow> Inl err
           | Inr tcs \<Rightarrow> (if tcs \<noteq> [] then Inr Route_run_tool else Inr Route_END_101)))"

definition workflow_101 :: "env \<Rightarrow> message list \<Rightarrow> error + message list" where
  "workflow_101 e msgs =
     (case call_llm e msgs of
        Inl err \<Rightarrow> Inl err
      | Inr out \<Rightarrow>
          (case should_continue_101 (msgs @ out) of
             Inl err \<Rightarrow> Inl err
           | Inr Route_END_101 \<Rightarrow> Inr (msgs @ out)
           | Inr Route_run_tool \<Rightarrow>
               (case run_tool e (msgs @ out) of
                  Inl err \<Rightarrow> Inl err
                | Inr result \<Rightarrow> Inr (msgs @ out @ result))))"

subsection \<open>Notions used to state the properties\<close>

text \<open>
  What the body of the loop of \<open>tool_handler\<close> does for one tool call: the lookup in the
  registry and the invocation.
\<close>

definition execute_call :: "env \<Rightarrow> tool_call \<Rightarrow> error + string" where
  "execute_call e tc =
     (case tools_by_name (name tc) of
        None \<Rightarrow> Inl (KeyError (name tc))
      | Some t \<Rightarrow> invoke e t (args tc))"

text \<open>The tool message that records the result of a tool call under the call's id.\<close>

definition tool_result :: "env \<Rightarrow> tool_call \<Rightarrow> message" where
  "tool_result e tc = ToolMessage (projr (execute_call e tc)) (call_id tc)"

text \<open>The system message that \<open>llm_call\<close> puts before the conversation.\<close>

definition agent_system_message :: "env \<Rightarrow> message" where
  "agent_system_message e =
     SystemMessage
       (agent_system_prompt e (AGENT_TOOLS_PROMPT e) (default_background e)
          (default_response_preferences e) (default_cal_preferences e))"

text \<open>The two messages that \<open>triage_router\<close> sends to the router model.\<close>

definition triage_prompt :: "env \<Rightarrow> string \<Rightarrow> string \<Rightarrow> string \<Rightarrow> string \<Rightarrow> message list" where
  "triage_prompt e author' to' subject' email_thread' =
     [SystemMessage
        (triage_system_prompt e (default_background e) (default_triage_instructions e)),
      HumanMessage (triage_user_prompt e author' to' subject' email_thread')]"

subsection \<open>A stub environment\<close>

text \<open>
  Deterministic stand-ins for the collaborators, for running the definitions on concrete
  inputs: a router that always answers with a given label, a model that answers its
  \<open>k\<close>-th call with the \<open>k\<close>-th entry of a script (it counts the AI messages it is shown),
  and validators that read string arguments by key.
\<close>

definition stub_router :: "string \<Rightarrow> message list \<Rightarrow> error + RouterSchema" where
  "stub_router label msgs = Inr \<lparr>reasoning = ''stub'', classification = label\<rparr>"

definition scripted_model ::
  "(string \<times> tool_call list) list \<Rightarrow> message list \<Rightarrow> error + (string \<times> tool_call list)" where
  "scripted_model script msgs =
     (let k = length (filter is_assistant msgs)
      in if k < length script then Inr (script ! k)
         else Inl (ModelError ''script exhausted''))"

fun get_str :: "args \<Rightarrow> string \<Rightarrow> error + string" where
  "get_str a k =
     (case map_of a k of
        Some (JStr s) \<Rightarrow> Inr s
      | _ \<Rightarrow> Inl (ValidationError k))"

definition stub_write_email_schema :: "args \<Rightarrow> error + (string \<times> string \<times> string)" where
  "stub_write_email_schema a =
     (case get_str a ''to'' of
        Inl err \<Rightarrow> Inl err
      | Inr t \<Rightarrow>
          (case get_str a ''subject'' of
             Inl err \<Rightarrow> Inl err
           | Inr s \<Rightarrow>
               (case get_str a ''content'' of
                  Inl err \<Rightarrow> Inl err
                | Inr c \<Rightarrow> Inr (t, s, c))))"

definition stub_Done_schema :: "args \<Rightarrow> error + bool" where
  "stub_Done_schema a =
     (case map_of a ''done'' of
        Some (JBool b) \<Rightarrow> Inr b
      | _ \<Rightarrow> Inl (ValidationError ''done''))"

definition stub_parse_email :: "email \<Rightarrow> error + (string \<times> string \<times> string \<times> string)" where
  "stub_parse_email em = Inr (author em, to em, subject em, email_thread em)"

definition stub_env :: "string \<Rightarrow> (string \<times> tool_call list) list \<Rightarrow> env" where
  "stub_env label script =
     \<lparr>llm_router = stub_router label,
      llm_with_tools = scripted_model script,
      model_with_tools = scripted_model script,
      write_email_schema = stub_write_email_schema,
      schedule_meeting_schema = (\<lambda>a. Inl (ValidationError ''schedule_meeting'')),
      check_calendar_availability_schema = (\<lambda>a. get_str a ''day''),
      Done_schema = stub_Done_schema,
      strftime_date = (\<lambda>d. ''a day''),
      parse_email = stub_parse_email,
      format_email_markdown = (\<lambda>s a t b. s @ '' / '' @ a @ '' / '' @ t @ '' / '' @ b),
      triage_system_prompt = (\<lambda>b i. b @ i),
      triage_user_prompt = (\<lambda>a t s b. a @ t @ s @ b),
      agent_system_prompt = (\<lambda>t b r c. t @ b @ r @ c),
      default_background = ''background'',
      default_triage_instructions = ''instructions'',
      AGENT_TOOLS_PROMPT = ''tools'',
      default_response_preferences = ''response'',
      default_cal_preferences = ''calendar''\<rparr>"

definition stub_email :: email where
  "stub_email =
     \<lparr>author = ''alice'', to = ''john'', subject = ''question'', email_thread = ''hello''\<rparr>"

definition stub_state :: "message list \<Rightarrow> state" where
  "stub_state msgs =
     \<lparr>messages = msgs, email_input = stub_email, classification_decision = None\<rparr>"

definition call_day :: tool_call where
  "call_day =
     \<lparr>name = ''check_calendar_availability'', args = [(''day'', JStr ''Monday'')],
      call_id = ''call_1''\<rparr>"

definition call_email :: tool_call where
  "call_email =
     \<lparr>name = ''write_email'',
      args = [(''to'', JStr ''alice''), (''subject'', JStr ''Re''), (''content'', JStr ''ok'')],
      call_id = ''call_2''\<rparr>"

definition call_done :: tool_call where
  "call_done = \<lparr>name = ''Done'', args = [(''done'', JBool True)], call_id = ''call_3''\<rparr>"

definition call_unknown :: tool_call where
  "call_unknown = \<lparr>name = ''delete_inbox'', args = [], call_id = ''call_4''\<rparr>"

section \<open>Properties\<close>

subsection \<open>Auxiliary facts\<close>

lemmas stub_defs = stub_env_def stub_state_def stub_email_def scripted_model_def
  stub_router_def stub_write_email_schema_def stub_Done_schema_def stub_parse_email_def
  call_day_def call_email_def call_done_def call_unknown_def

lemma last_message_snoc: "last_message (ms @ [m]) = Inr m"
  by (cases ms) simp_all

lemma tool_calls_Inr: "tool_calls m = Inr tcs \<longleftrightarrow> (\<exists>c. m = AIMessage c tcs)"
  by (cases m) auto

lemma tools_by_name_eq:
  "tools_by_name k =
     (if k = ''Done'' then Some Done_tool
      else if k = ''check_calendar_availability'' then Some Check_calendar_availability
      else if k = ''schedule_meeting'' then Some Schedule_meeting
      else if k = ''write_email'' then Some Write_email
      else None)"
  by (simp add: tools_by_name_def tools_def)

lemma tools_by_name_None:
  "tools_by_name k = None \<longleftrightarrow> k \<notin> {''write_email'', ''schedule_meeting'', ''check_calendar_availability'', ''Done''}"
  by (simp add: tools_by_name_eq)

lemmas eval_defs = agent_def llm_call_def should_continue_def tool_handler_def
  apply_update_def tools_by_name_eq check_calendar_availability_def write_email_def
  Done_def str_bool_def execute_call_def tool_result_def agent_system_message_def
  triage_prompt_def stub_defs

lemma run_tool_calls_step:
  "run_tool_calls e (tc # tcs) acc =
     (case execute_call e tc of
        Inl err \<Rightarrow> Inl err
      | Inr obs \<Rightarrow> run_tool_calls e tcs (acc @ [ToolMessage obs (call_id tc)]))"
  by (simp add: execute_call_def split: option.splits)

lemma run_tool_calls_Inr:
  "run_tool_calls e tcs acc = Inr res \<longleftrightarrow>
     (\<forall>tc \<in> set tcs. \<not> isl (execute_call e tc)) \<and> res = acc @ map (tool_result e) tcs"
proof (induction tcs arbitrary: acc)
  case Nil
  show ?case by auto
next
  case (Cons tc tcs)
  show ?case
  proof (cases "execute_call e tc")
    case (Inl err)
    then show ?thesis by (simp add: run_tool_calls_step del: run_tool_calls.simps)
  next
    case (Inr obs)
    then show ?thesis
      by (simp add: run_tool_calls_step Cons.IH tool_result_def del: run_tool_calls.simps)
  qed
qed

lemma run_tool_calls_unknown:
  assumes "\<forall>p \<in> set pre. \<not> isl (execute_call e p)" and "tools_by_name (name tc) = None"
  shows "run_tool_calls e (pre @ tc # post) acc = Inl (KeyError (name tc))"
  using assms
proof (induction pre arbitrary: acc)
  case Nil
  then show ?case by simp
next
  case (Cons p pre)
  then obtain obs where "execute_call e p = Inr obs" by (cases "execute_call e p") auto
  with Cons show ?case by (simp add: run_tool_calls_step del: run_tool_calls.simps)
qed

lemma tool_handler_Inr:
  "tool_handler e st = Inr u \<longleftrightarrow>
     (\<exists>m tcs. last_message (messages st) = Inr m \<and> tool_calls m = Inr tcs \<and>
        (\<forall>tc \<in> set tcs. \<not> isl (execute_call e tc)) \<and>
        u = \<lparr>u_messages = Some (map (tool_result e) tcs), u_classification_decision = None\<rparr>)"
proof (cases "last_message (messages st)")
  case (Inl err)
  then show ?thesis by (simp add: tool_handler_def)
next
  case m: (Inr m)
  show ?thesis
  proof (cases "tool_calls m")
    case (Inl err)
    with m show ?thesis by (simp add: tool_handler_def)
  next
    case tcs: (Inr tcs)
    show ?thesis
    proof (cases "run_tool_calls e tcs []")
      case (Inl err)
      then have "\<not> (\<forall>tc \<in> set tcs. \<not> isl (execute_call e tc))"
        using run_tool_calls_Inr [of e tcs "[]" "map (tool_result e) tcs"] by simp
      with m tcs Inl show ?thesis by (simp add: tool_handler_def)
    next
      case (Inr res)
      with m tcs run_tool_calls_Inr [of e tcs "[]" res] show ?thesis
        by (auto simp: tool_handler_def)
    qed
  qed
qed

lemma tool_handler_unknown:
  assumes "last_message (messages st) = Inr (AIMessage c (pre @ tc # post))"
    and "tools_by_name (name tc) = None"
    and "\<forall>p \<in> set pre. \<not> isl (execute_call e p)"
  shows "tool_handler e st = Inl (KeyError (name tc))"
  using assms by (simp add: tool_handler_def run_tool_calls_unknown)

lemma should_continue_AIMessage:
  assumes "last_message (messages st) = Inr (AIMessage c tcs)"
  shows "should_continue st = Inr (should_continue_loop tcs)"
  using assms by (cases tcs) (simp_all add: should_continue_def)

lemma conditional_edges_END:
  "conditional_edges (should_continue_loop tcs) = Some END \<longleftrightarrow>
     (\<exists>tc rest. tcs = tc # rest \<and> name tc = ''Done'')"
  by (cases tcs) auto

lemma messages_apply_update:
  "messages (apply_update st u) =
     (case u_messages u of None \<Rightarrow> messages st | Some ms \<Rightarrow> messages st @ ms)"
  by (simp add: apply_update_def)

lemma apply_update_messages_only:
  "apply_update st \<lparr>u_messages = Some ms, u_classification_decision = None\<rparr> =
     st\<lparr>messages := messages st @ ms\<rparr>"
  by (simp add: apply_update_def)

lemma llm_call_Inr:
  "llm_call e st = Inr u \<longleftrightarrow>
     (\<exists>c tcs. llm_with_tools e (agent_system_message e # messages st) = Inr (c, tcs) \<and>
        u = \<lparr>u_messages = Some [AIMessage c tcs], u_classification_decision = None\<rparr>)"
  by (auto simp: llm_call_def agent_system_message_def split: sum.splits)

lemma agent_step_llm_call:
  assumes "llm_with_tools e (agent_system_message e # messages st) = Inr (c, tcs)"
  shows "agent_step e Llm_call st =
     (case conditional_edges (should_continue_loop tcs) of
        None \<Rightarrow> Inl BranchError
      | Some nd \<Rightarrow> Inr (nd, st\<lparr>messages := messages st @ [AIMessage c tcs]\<rparr>))"
proof -
  have "llm_call e st =
      Inr \<lparr>u_messages = Some [AIMessage c tcs], u_classification_decision = None\<rparr>"
    using assms by (simp add: llm_call_Inr)
  moreover have "should_continue (st\<lparr>messages := messages st @ [AIMessage c tcs]\<rparr>) =
      Inr (should_continue_loop tcs)"
    by (rule should_continue_AIMessage) (simp add: last_message_snoc)
  ultimately show ?thesis
    by (simp add: apply_update_messages_only split: option.splits)
qed

lemma agent_step_llm_call_Inr:
  assumes "agent_step e Llm_call st = Inr (nd, st1)"
  shows "\<exists>c tcs. llm_with_tools e (agent_system_message e # messages st) = Inr (c, tcs) \<and>
           conditional_edges (should_continue_loop tcs) = Some nd \<and>
           st1 = st\<lparr>messages := messages st @ [AIMessage c tcs]\<rparr>"
proof -
  from assms obtain u where u: "llm_call e st = Inr u"
    by (auto split: sum.splits)
  then obtain c tcs where
    m: "llm_with_tools e (agent_system_message e # messages st) = Inr (c, tcs)"
    by (auto simp: llm_call_Inr)
  from assms agent_step_llm_call [OF m] show ?thesis
    using m by (auto split: option.splits)
qed

lemma agent_step_tool_handler_Inr:
  assumes "agent_step e Tool_handler st = Inr (nd, st1)"
  shows "nd = Llm_call \<and>
     (\<exists>c tcs. last_message (messages st) = Inr (AIMessage c tcs) \<and>
        (\<forall>tc \<in> set tcs. \<not> isl (execute_call e tc)) \<and>
        st1 = st\<lparr>messages := messages st @ map (tool_result e) tcs\<rparr>)"
proof -
  from assms obtain u where u: "tool_handler e st = Inr u"
    and r: "nd = Llm_call" "st1 = apply_update st u"
    by (auto split: sum.splits)
  from u obtain m tcs where "last_message (messages st) = Inr m" "tool_calls m = Inr tcs"
    "\<forall>tc \<in> set tcs. \<not> isl (execute_call e tc)"
    "u = \<lparr>u_messages = Some (map (tool_result e) tcs), u_classification_decision = None\<rparr>"
    by (auto simp: tool_handler_Inr)
  with r show ?thesis
    by (auto simp: tool_calls_Inr apply_update_messages_only)
qed

lemma agent_step_tool_handler_eq:
  assumes "last_message (messages st) = Inr (AIMessage c tcs)"
  shows "agent_step e Tool_handler st =
     (if \<forall>tc \<in> set tcs. \<not> isl (execute_call e tc)
      then Inr (Llm_call, st\<lparr>messages := messages st @ map (tool_result e) tcs\<rparr>)
      else Inl (projl (tool_handler e st)))"
proof (cases "tool_handler e st")
  case (Inl err)
  then have "\<not> (\<forall>tc \<in> set tcs. \<not> isl (execute_call e tc))"
    using assms
      tool_handler_Inr [of e st "\<lparr>u_messages = Some (map (tool_result e) tcs),
        u_classification_decision = None\<rparr>"]
    by simp
  with Inl show ?thesis by simp
next
  case (Inr u)
  with assms have "(\<forall>tc \<in> set tcs. \<not> isl (execute_call e tc)) \<and>
      u = \<lparr>u_messages = Some (map (tool_result e) tcs), u_classification_decision = None\<rparr>"
    by (auto simp: tool_handler_Inr)
  with Inr show ?thesis by (simp add: apply_update_messages_only)
qed

lemma run_graph_Finished:
  assumes "run_graph e n nd st = Finished st'" and "nd \<noteq> END"
  shows "\<exists>ms c tc tcs. messages st' = messages st @ ms @ [AIMessage c (tc # tcs)] \<and>
           name tc = ''Done''"
  using assms
proof (induction n arbitrary: nd st)
  case 0
  then show ?case by (cases nd) simp_all
next
  case (Suc n)
  show ?case
  proof (cases nd)
    case Llm_call
    with Suc.prems obtain nd1 st1 where
      step: "agent_step e Llm_call st = Inr (nd1, st1)" and
      rest: "run_graph e n nd1 st1 = Finished st'"
      by (auto split: sum.splits)
    from agent_step_llm_call_Inr [OF step] obtain c tcs where
      edge: "conditional_edges (should_continue_loop tcs) = Some nd1" and
      st1: "st1 = st\<lparr>messages := messages st @ [AIMessage c tcs]\<rparr>"
      by blast
    show ?thesis
    proof (cases "nd1 = END")
      case True
      with edge obtain tc more where "tcs = tc # more" "name tc = ''Done''"
        by (auto simp: conditional_edges_END)
      moreover from True rest have "st' = st1" by simp
      ultimately show ?thesis using st1 by auto
    next
      case False
      from Suc.IH [OF rest False] obtain ms c' tc tcs' where
        "messages st' = messages st1 @ ms @ [AIMessage c' (tc # tcs')]" "name tc = ''Done''"
        by blast
      then show ?thesis using st1 by auto
    qed
  next
    case Tool_handler
    with Suc.prems obtain nd1 st1 where
      step: "agent_step e Tool_handler st = Inr (nd1, st1)" and
      rest: "run_graph e n nd1 st1 = Finished st'"
      by (auto split: sum.splits)
    from agent_step_tool_handler_Inr [OF step] obtain c tcs where
      nd1: "nd1 = Llm_call" and
      st1: "st1 = st\<lparr>messages := messages st @ map (tool_result e) tcs\<rparr>"
      by blast
    from nd1 have "nd1 \<noteq> END" by simp
    from Suc.IH [OF rest this] obtain ms c' tc tcs' where
      "messages st' = messages st1 @ ms @ [AIMessage c' (tc # tcs')]" "name tc = ''Done''"
      by blast
    then show ?thesis using st1 by auto
  next
    case END
    with Suc.prems show ?thesis by simp
  qed
qed

lemma triage_router_eq:
  assumes "parse_email e (email_input st) = Inr (a, t, s, b)"
    and "llm_router e (triage_prompt e a t s b) = Inr r"
  shows "triage_router e st =
     (if classification r = ''respond'' then
        Inr \<lparr>goto = Goto_response_agent,
             cmd_update =
               \<lparr>u_messages =
                  Some [HumanMessage (''Respond to the email: '' @ [CHR 0x0A, CHR 0x0A]
                                        @ format_email_markdown e s a t b)],
                u_classification_decision = Some (classification r)\<rparr>\<rparr>
      else if classification r = ''ignore'' \<or> classification r = ''notify'' then
        Inr \<lparr>goto = Goto_END,
             cmd_update =
               \<lparr>u_messages = None, u_classification_decision = Some (classification r)\<rparr>\<rparr>
      else Inl (ValueError (''Invalid classification: '' @ classification r)))"
  using assms by (simp add: triage_router_def triage_prompt_def)

lemma triage_router_END:
  assumes "parse_email e (email_input st) = Inr (a, t, s, b)"
    and "llm_router e (triage_prompt e a t s b) = Inr r"
    and "classification r = ''ignore'' \<or> classification r = ''notify''"
  shows "triage_router e st =
           Inr \<lparr>goto = Goto_END,
                cmd_update = \<lparr>u_messages = None,
                              u_classification_decision = Some (classification r)\<rparr>\<rparr>"
proof -
  from assms(3) have "classification r \<noteq> ''respond''" by auto
  with assms(3) show ?thesis
    by (simp only: triage_router_eq [OF assms(1,2)] if_True if_False)
qed

subsection \<open>The calendar tool\<close>

text \<open>
  C10. \<open>check_calendar_availability\<close> is a function of its argument alone, and its answer is
  the label \<open>Available times on\<close>, the day as given, and the same three open slots
  9:00 AM, 2:00 PM and 4:00 PM for every day: what follows the echoed day does not depend
  on the day.
\<close>

theorem check_calendar_availability_slots:
  "check_calendar_availability d =
     ''Available times on '' @ d @ '': '' @ join_comma open_slots
   \<and> drop (length (''Available times on '' @ d)) (check_calendar_availability d) =
     drop (length (''Available times on '' @ d')) (check_calendar_availability d')
   \<and> drop (length (''Available times on '' @ d)) (check_calendar_availability d) =
     '': '' @ join_comma [''9:00 AM'', ''2:00 PM'', ''4:00 PM'']"
  by (simp add: check_calendar_availability_def open_slots_def)

subsection \<open>The response agent\<close>

text \<open>
  C1. A run of the agent graph reaches \<open>END\<close> only through a model turn with a tool call
  named \<open>Done\<close>: if the run finishes, the final conversation is the initial one, extended,
  and it ends with an AI message whose first tool call is \<open>Done\<close>; so some assistant
  message of the final conversation carries a \<open>Done\<close> tool call.
\<close>

theorem agent_ends_only_after_Done:
  assumes "agent e n st = Finished st'"
  shows "(\<exists>ms c tc tcs. messages st' = messages st @ ms @ [AIMessage c (tc # tcs)] \<and>
            name tc = ''Done'')
       \<and> (\<exists>m \<in> set (messages st'). is_assistant m \<and>
            (\<exists>tc \<in> set (projr (tool_calls m)). name tc = ''Done''))"
proof -
  from assms have "run_graph e n Llm_call st = Finished st'"
    by (simp add: agent_def)
  from run_graph_Finished [OF this] obtain ms c tc tcs where
    m: "messages st' = messages st @ ms @ [AIMessage c (tc # tcs)]" and d: "name tc = ''Done''"
    by auto
  from m have "AIMessage c (tc # tcs) \<in> set (messages st')" by simp
  moreover have "is_assistant (AIMessage c (tc # tcs))" by simp
  moreover have "tc \<in> set (projr (tool_calls (AIMessage c (tc # tcs))))" by simp
  ultimately have "\<exists>m \<in> set (messages st'). is_assistant m \<and>
            (\<exists>tc \<in> set (projr (tool_calls m)). name tc = ''Done'')"
    using d by blast
  with m d show ?thesis by blast
qed

theorem agent_ends_only_after_Done_witness:
  "agent (stub_env ''respond'' [('''', [call_day]), ('''', [call_done])]) (Suc (Suc (Suc 0)))
     (stub_state [HumanMessage ''Respond'']) =
   Finished (stub_state [HumanMessage ''Respond'', AIMessage '''' [call_day],
      ToolMessage ''Available times on Monday: 9:00 AM, 2:00 PM, 4:00 PM'' ''call_1'',
      AIMessage '''' [call_done]])
   \<and> (\<exists>ms c tc tcs.
        messages (stub_state [HumanMessage ''Respond'', AIMessage '''' [call_day],
          ToolMessage ''Available times on Monday: 9:00 AM, 2:00 PM, 4:00 PM'' ''call_1'',
          AIMessage '''' [call_done]]) =
        messages (stub_state [HumanMessage ''Respond'']) @ ms @ [AIMessage c (tc # tcs)] \<and>
        name tc = ''Done'')"
proof -
  have h: "agent (stub_env ''respond'' [('''', [call_day]), ('''', [call_done])])
       (Suc (Suc (Suc 0))) (stub_state [HumanMessage ''Respond'']) =
     Finished (stub_state [HumanMessage ''Respond'', AIMessage '''' [call_day],
      ToolMessage ''Available times on Monday: 9:00 AM, 2:00 PM, 4:00 PM'' ''call_1'',
      AIMessage '''' [call_done]])"
    by (simp add: eval_defs)
  from agent_ends_only_after_Done [OF h] h show ?thesis by blast
qed

text \<open>
  C2, as stated, fails: when the model's turn is \<open>[Done, write_email]\<close> the run ends at once,
  and the final conversation has no tool message, so neither call was executed or recorded.
\<close>

theorem done_first_ends_without_results:
  "agent (stub_env ''respond'' [('''', [call_done, call_email])]) 2
     (stub_state [HumanMessage ''Respond'']) =
   Finished (stub_state [HumanMessage ''Respond'', AIMessage '''' [call_done, call_email]])
   \<and> filter is_tool
       (messages (stub_state [HumanMessage ''Respond'', AIMessage '''' [call_done, call_email]]))
     = []"
  by (simp add: agent_def eval_nat_numeral llm_call_def should_continue_def
      apply_update_def stub_defs)

text \<open>
  C2, amended. A model turn is routed before any of its tool calls is executed. A turn routed
  to \<open>END\<close> (its first tool call is \<open>Done\<close>) ends the run with the conversation ending in
  the model's message: none of its tool calls is executed or recorded. A turn routed to
  \<open>tool_handler\<close> has every one of its tool calls, a \<open>Done\<close> call among them included,
  executed and its result recorded in the order the model emitted them, provided each runs
  without error, and control then returns to \<open>llm_call\<close>; if one of them fails, the step
  raises.
\<close>

theorem routed_turn_runs_all_calls_or_none:
  assumes "agent_step e Llm_call st = Inr (nd, st1)"
  shows "\<exists>c tcs.
     llm_with_tools e (agent_system_message e # messages st) = Inr (c, tcs) \<and>
     messages st1 = messages st @ [AIMessage c tcs] \<and>
     (nd = END \<longleftrightarrow> (\<exists>tc rest. tcs = tc # rest \<and> name tc = ''Done'')) \<and>
     (nd = END \<longrightarrow> run_graph e n nd st1 = Finished st1) \<and>
     (nd \<noteq> END \<longrightarrow>
        nd = Tool_handler \<and>
        ((\<forall>tc \<in> set tcs. \<not> isl (execute_call e tc)) \<longrightarrow>
           agent_step e Tool_handler st1 =
             Inr (Llm_call, st1\<lparr>messages := messages st1 @ map (tool_result e) tcs\<rparr>)) \<and>
        ((\<exists>tc \<in> set tcs. isl (execute_call e tc)) \<longrightarrow>
           isl (agent_step e Tool_handler st1)))"
proof -
  from agent_step_llm_call_Inr [OF assms] obtain c tcs where
    m: "llm_with_tools e (agent_system_message e # messages st) = Inr (c, tcs)" and
    edge: "conditional_edges (should_continue_loop tcs) = Some nd" and
    st1: "st1 = st\<lparr>messages := messages st @ [AIMessage c tcs]\<rparr>"
    by blast
  from st1 have last: "last_message (messages st1) = Inr (AIMessage c tcs)"
    by (simp add: last_message_snoc)
  from edge have nd: "nd \<noteq> END \<longrightarrow> nd = Tool_handler"
    by (cases tcs) (auto split: if_splits)
  from edge have first: "nd = END \<longleftrightarrow> (\<exists>tc rest. tcs = tc # rest \<and> name tc = ''Done'')"
    using conditional_edges_END [of tcs] by auto
  have fin: "nd = END \<longrightarrow> run_graph e n nd st1 = Finished st1" by simp
  have ok: "(\<forall>tc \<in> set tcs. \<not> isl (execute_call e tc)) \<longrightarrow>
           agent_step e Tool_handler st1 =
             Inr (Llm_call, st1\<lparr>messages := messages st1 @ map (tool_result e) tcs\<rparr>)"
    using agent_step_tool_handler_eq [OF last, of e] by simp
  have bad: "(\<exists>tc \<in> set tcs. isl (execute_call e tc)) \<longrightarrow> isl (agent_step e Tool_handler st1)"
    using agent_step_tool_handler_eq [OF last, of e] by auto
  from st1 have msgs: "messages st1 = messages st @ [AIMessage c tcs]" by simp
  from nd ok bad have rest: "nd \<noteq> END \<longrightarrow>
        nd = Tool_handler \<and>
        ((\<forall>tc \<in> set tcs. \<not> isl (execute_call e tc)) \<longrightarrow>
           agent_step e Tool_handler st1 =
             Inr (Llm_call, st1\<lparr>messages := messages st1 @ map (tool_result e) tcs\<rparr>)) \<and>
        ((\<exists>tc \<in> set tcs. isl (execute_call e tc)) \<longrightarrow>
           isl (agent_step e Tool_handler st1))"
    by blast
  from m msgs first fin rest show ?thesis by blast
qed

theorem routed_turn_runs_all_calls_or_none_witness:
  "agent_step (stub_env ''respond'' [('''', [call_done, call_email])]) Llm_call
     (stub_state [HumanMessage ''Respond'']) =
     Inr (END, stub_state [HumanMessage ''Respond'', AIMessage '''' [call_done, call_email]])
   \<and> run_graph (stub_env ''respond'' [('''', [call_done, call_email])]) 0 END
       (stub_state [HumanMessage ''Respond'', AIMessage '''' [call_done, call_email]]) =
     Finished (stub_state [HumanMessage ''Respond'', AIMessage '''' [call_done, call_email]])
   \<and> agent_step (stub_env ''respond'' [('''', [call_day, call_done, call_email])]) Tool_handler
       (stub_state [HumanMessage ''Respond'', AIMessage '''' [call_day, call_done, call_email]]) =
     Inr (Llm_call,
          stub_state [HumanMessage ''Respond'', AIMessage '''' [call_day, call_done, call_email],
            ToolMessage (check_calendar_availability ''Monday'') ''call_1'',
            ToolMessage (Done True) ''call_3'',
            ToolMessage (write_email ''alice'' ''Re'' ''ok'') ''call_2''])
   \<and> isl (agent_step (stub_env ''respond'' [('''', [call_day, call_unknown])]) Tool_handler
       (stub_state [HumanMessage ''Respond'', AIMessage '''' [call_day, call_unknown]]))"
proof -
  let ?S = "stub_state [HumanMessage ''Respond'']"
  let ?E1 = "stub_env ''respond'' [('''', [call_done, call_email])]"
  let ?S1 = "stub_state [HumanMessage ''Respond'', AIMessage '''' [call_done, call_email]]"
  let ?E2 = "stub_env ''respond'' [('''', [call_day, call_done, call_email])]"
  let ?S2 = "stub_state [HumanMessage ''Respond'',
               AIMessage '''' [call_day, call_done, call_email]]"
  let ?E3 = "stub_env ''respond'' [('''', [call_day, call_unknown])]"
  let ?S3 = "stub_state [HumanMessage ''Respond'', AIMessage '''' [call_day, call_unknown]]"
  have h1: "agent_step ?E1 Llm_call ?S = Inr (END, ?S1)"
    by (simp add: eval_defs)
  have h2: "agent_step ?E2 Llm_call ?S = Inr (Tool_handler, ?S2)"
    by (simp add: eval_defs)
  have h3: "agent_step ?E3 Llm_call ?S = Inr (Tool_handler, ?S3)"
    by (simp add: eval_defs)
  have m2: "llm_with_tools ?E2 (agent_system_message ?E2 # messages ?S) =
      Inr ('''', [call_day, call_done, call_email])"
    by (simp add: eval_defs)
  have m3: "llm_with_tools ?E3 (agent_system_message ?E3 # messages ?S) =
      Inr ('''', [call_day, call_unknown])"
    by (simp add: eval_defs)
  have ok2: "\<forall>tc \<in> set [call_day, call_done, call_email]. \<not> isl (execute_call ?E2 tc)"
    by (simp add: eval_defs)
  have bad3: "\<exists>tc \<in> set [call_day, call_unknown]. isl (execute_call ?E3 tc)"
    by (simp add: eval_defs)
  have r2: "map (tool_result ?E2) [call_day, call_done, call_email] =
      [ToolMessage (check_calendar_availability ''Monday'') ''call_1'',
       ToolMessage (Done True) ''call_3'',
       ToolMessage (write_email ''alice'' ''Re'' ''ok'') ''call_2'']"
    by (simp add: tool_result_def execute_call_def tools_by_name_eq stub_defs)
  from routed_turn_runs_all_calls_or_none [OF h1, of 0]
  have a: "run_graph ?E1 0 END ?S1 = Finished ?S1" by blast
  from routed_turn_runs_all_calls_or_none [OF h2, of 0] m2 ok2
  have "agent_step ?E2 Tool_handler ?S2 =
      Inr (Llm_call, ?S2\<lparr>messages := messages ?S2 @
             map (tool_result ?E2) [call_day, call_done, call_email]\<rparr>)"
    by auto
  then have b: "agent_step ?E2 Tool_handler ?S2 =
      Inr (Llm_call,
          stub_state [HumanMessage ''Respond'', AIMessage '''' [call_day, call_done, call_email],
            ToolMessage (check_calendar_availability ''Monday'') ''call_1'',
            ToolMessage (Done True) ''call_3'',
            ToolMessage (write_email ''alice'' ''Re'' ''ok'') ''call_2''])"
    by (simp only: r2) (simp add: stub_state_def)
  from routed_turn_runs_all_calls_or_none [OF h3, of 0] m3 bad3
  have c: "isl (agent_step ?E3 Tool_handler ?S3)"
    by auto
  from h1 a b c show ?thesis by simp
qed

text \<open>
  C5. When \<open>tool_handler\<close> returns, the messages it adds are exactly one tool message per
  tool call of the last model message, in the order of the calls, each carrying the id of
  its call and the result of executing that call; no other message is added.
\<close>

theorem tool_handler_results_match_calls:
  assumes "tool_handler e st = Inr u"
  shows "\<exists>c tcs res.
     last_message (messages st) = Inr (AIMessage c tcs) \<and>
     u_messages u = Some res \<and> u_classification_decision u = None \<and>
     length res = length tcs \<and>
     res = map (tool_result e) tcs \<and>
     map tool_call_id res = map (\<lambda>tc. Some (call_id tc)) tcs \<and>
     (\<forall>m \<in> set res. is_tool m) \<and>
     (\<forall>tc \<in> set tcs. \<not> isl (execute_call e tc)) \<and>
     messages (apply_update st u) = messages st @ res"
proof -
  from assms obtain m tcs where
    l: "last_message (messages st) = Inr m" and t: "tool_calls m = Inr tcs" and
    ok: "\<forall>tc \<in> set tcs. \<not> isl (execute_call e tc)" and
    u: "u = \<lparr>u_messages = Some (map (tool_result e) tcs), u_classification_decision = None\<rparr>"
    by (auto simp: tool_handler_Inr)
  from t obtain c where "m = AIMessage c tcs" by (auto simp: tool_calls_Inr)
  with l have "last_message (messages st) = Inr (AIMessage c tcs)" by simp
  moreover have "map tool_call_id (map (tool_result e) tcs) = map (\<lambda>tc. Some (call_id tc)) tcs"
    by (simp add: tool_result_def)
  moreover have "\<forall>m \<in> set (map (tool_result e) tcs). is_tool m"
    by (simp add: tool_result_def)
  ultimately show ?thesis using ok u
    by (simp add: messages_apply_update)
qed

theorem tool_handler_results_match_calls_witness:
  "tool_handler (stub_env ''respond'' [])
     (stub_state [HumanMessage ''Respond'', AIMessage '''' [call_day, call_email]]) =
   Inr \<lparr>u_messages =
          Some [ToolMessage (check_calendar_availability ''Monday'') ''call_1'',
                ToolMessage (write_email ''alice'' ''Re'' ''ok'') ''call_2''],
        u_classification_decision = None\<rparr>
   \<and> (\<exists>c tcs res.
        last_message (messages
          (stub_state [HumanMessage ''Respond'', AIMessage '''' [call_day, call_email]])) =
          Inr (AIMessage c tcs) \<and>
        res = [ToolMessage (check_calendar_availability ''Monday'') ''call_1'',
               ToolMessage (write_email ''alice'' ''Re'' ''ok'') ''call_2''] \<and>
        map tool_call_id res = map (\<lambda>tc. Some (call_id tc)) tcs)"
proof -
  have h: "tool_handler (stub_env ''respond'' [])
     (stub_state [HumanMessage ''Respond'', AIMessage '''' [call_day, call_email]]) =
   Inr \<lparr>u_messages =
          Some [ToolMessage (check_calendar_availability ''Monday'') ''call_1'',
                ToolMessage (write_email ''alice'' ''Re'' ''ok'') ''call_2''],
        u_classification_decision = None\<rparr>"
    by (simp add: tool_handler_def tools_by_name_eq stub_defs)
  from tool_handler_results_match_calls [OF h] h show ?thesis by auto
qed

text \<open>
  C6, as stated, fails: the turn \<open>[Done, delete_inbox]\<close> requests a tool that is not in the
  registry, and the run finishes normally instead of aborting.
\<close>

theorem done_first_hides_unknown_tool:
  "agent (stub_env ''respond'' [('''', [call_done, call_unknown])]) 2
     (stub_state [HumanMessage ''Respond'']) =
   Finished (stub_state [HumanMessage ''Respond'', AIMessage '''' [call_done, call_unknown]])
   \<and> tools_by_name (name call_unknown) = None"
  by (simp add: agent_def eval_nat_numeral llm_call_def should_continue_def
      apply_update_def tools_by_name_eq stub_defs)

text \<open>
  C6, amended. Let a model turn contain a tool call whose name is not one of
  \<open>write_email\<close>, \<open>schedule_meeting\<close>, \<open>check_calendar_availability\<close>, \<open>Done\<close>, and let every
  call before it in the turn run without error. If the turn is routed to \<open>tool_handler\<close>,
  the run is ended by Python's \<open>KeyError\<close> carrying the unknown name (the exception of the
  dictionary lookup; there is no exception class of the notebook's own). If the turn is
  routed to \<open>END\<close>, the run finishes without looking any tool up.
\<close>

theorem unknown_tool_raises_KeyError:
  assumes "llm_with_tools e (agent_system_message e # messages st) = Inr (c, pre @ tc # post)"
    and "name tc \<notin>
           {''write_email'', ''schedule_meeting'', ''check_calendar_availability'', ''Done''}"
    and "\<forall>p \<in> set pre. \<not> isl (execute_call e p)"
  shows "(conditional_edges (should_continue_loop (pre @ tc # post)) = Some Tool_handler \<longrightarrow>
            tool_handler e (st\<lparr>messages := messages st @ [AIMessage c (pre @ tc # post)]\<rparr>) =
              Inl (KeyError (name tc)) \<and>
            agent e (Suc (Suc n)) st = Raised (KeyError (name tc)))
       \<and> (conditional_edges (should_continue_loop (pre @ tc # post)) = Some END \<longrightarrow>
            agent e (Suc n) st =
              Finished (st\<lparr>messages := messages st @ [AIMessage c (pre @ tc # post)]\<rparr>))
       \<and> (conditional_edges (should_continue_loop (pre @ tc # post)) = Some Tool_handler \<or>
          conditional_edges (should_continue_loop (pre @ tc # post)) = Some END)"
proof -
  let ?st1 = "st\<lparr>messages := messages st @ [AIMessage c (pre @ tc # post)]\<rparr>"
  have none: "tools_by_name (name tc) = None"
    using assms(2) by (simp add: tools_by_name_None)
  have "last_message (messages ?st1) = Inr (AIMessage c (pre @ tc # post))"
    by (simp add: last_message_snoc)
  from tool_handler_unknown [OF this none assms(3)]
  have th: "tool_handler e ?st1 = Inl (KeyError (name tc))" .
  have step: "agent_step e Llm_call st =
     (case conditional_edges (should_continue_loop (pre @ tc # post)) of
        None \<Rightarrow> Inl BranchError
      | Some nd \<Rightarrow> Inr (nd, ?st1))"
    by (rule agent_step_llm_call [OF assms(1)])
  have a: "conditional_edges (should_continue_loop (pre @ tc # post)) = Some Tool_handler \<longrightarrow>
      agent e (Suc (Suc n)) st = Raised (KeyError (name tc))"
    using step th by (simp add: agent_def)
  have b: "conditional_edges (should_continue_loop (pre @ tc # post)) = Some END \<longrightarrow>
      agent e (Suc n) st = Finished ?st1"
    using step by (simp add: agent_def)
  have c: "conditional_edges (should_continue_loop (pre @ tc # post)) = Some Tool_handler \<or>
          conditional_edges (should_continue_loop (pre @ tc # post)) = Some END"
    by (cases pre) auto
  from a b c th show ?thesis by blast
qed

theorem unknown_tool_raises_KeyError_witness:
  "agent (stub_env ''respond'' [('''', [call_day, call_unknown, call_email])]) (Suc (Suc 0))
     (stub_state [HumanMessage ''Respond'']) = Raised (KeyError ''delete_inbox'')
   \<and> agent (stub_env ''respond'' [('''', [call_done, call_unknown])]) (Suc 0)
     (stub_state [HumanMessage ''Respond'']) =
     Finished (stub_state [HumanMessage ''Respond'', AIMessage '''' [call_done, call_unknown]])"
proof -
  let ?S = "stub_state [HumanMessage ''Respond'']"
  let ?E1 = "stub_env ''respond'' [('''', [call_day, call_unknown, call_email])]"
  let ?E2 = "stub_env ''respond'' [('''', [call_done, call_unknown])]"
  have m1: "llm_with_tools ?E1 (agent_system_message ?E1 # messages ?S) =
      Inr ('''', [call_day] @ call_unknown # [call_email])"
    by (simp add: eval_defs)
  have m2: "llm_with_tools ?E2 (agent_system_message ?E2 # messages ?S) =
      Inr ('''', [call_done] @ call_unknown # [])"
    by (simp add: eval_defs)
  have u: "name call_unknown \<notin>
      {''write_email'', ''schedule_meeting'', ''check_calendar_availability'', ''Done''}"
    by (simp add: call_unknown_def)
  have p1: "\<forall>p \<in> set [call_day]. \<not> isl (execute_call ?E1 p)"
    by (simp add: eval_defs)
  have p2: "\<forall>p \<in> set [call_done]. \<not> isl (execute_call ?E2 p)"
    by (simp add: eval_defs)
  have r1: "conditional_edges (should_continue_loop ([call_day] @ call_unknown # [call_email])) =
      Some Tool_handler"
    by (simp add: call_day_def)
  have r2: "conditional_edges (should_continue_loop ([call_done] @ call_unknown # [])) =
      Some END"
    by (simp add: call_done_def)
  from unknown_tool_raises_KeyError [OF m1 u p1, of 0] r1
  have a: "agent ?E1 (Suc (Suc 0)) ?S = Raised (KeyError (name call_unknown))"
    by blast
  from unknown_tool_raises_KeyError [OF m2 u p2, of 0] r2
  have b: "agent ?E2 (Suc 0) ?S =
      Finished (?S\<lparr>messages := messages ?S @ [AIMessage '''' ([call_done] @ call_unknown # [])]\<rparr>)"
    by blast
  from a b show ?thesis by (simp add: call_unknown_def stub_state_def)
qed

text \<open>
  C4. A model response without tool calls is fatal for a run of the agent graph, at whatever
  turn it comes: the step of \<open>llm_call\<close> on it raises, the run is ended by that error and
  handed to the caller as \<open>Raised\<close>, and with no number of steps does the run finish
  normally. The same holds for the run that reaches this turn through \<open>tool_handler\<close>.
\<close>

theorem no_tool_call_is_fatal:
  assumes "llm_with_tools e (agent_system_message e # messages st) = Inr (c, [])"
  shows "agent_step e Llm_call st = Inl BranchError
       \<and> agent e (Suc n) st = Raised BranchError
       \<and> (\<forall>k st'. agent e k st \<noteq> Finished st')
       \<and> (agent_step e Tool_handler st_prev = Inr (Llm_call, st) \<longrightarrow>
            run_graph e (Suc (Suc n)) Tool_handler st_prev = Raised BranchError \<and>
            (\<forall>k st'. run_graph e k Tool_handler st_prev \<noteq> Finished st'))"
proof -
  have step: "agent_step e Llm_call st = Inl BranchError"
    using agent_step_llm_call [OF assms] by simp
  have raised: "run_graph e (Suc k) Llm_call st = Raised BranchError" for k
    using step by simp
  have never: "run_graph e k Llm_call st \<noteq> Finished st'" for k st'
    using raised by (cases k) simp_all
  have prev: "run_graph e (Suc (Suc n)) Tool_handler st_prev = Raised BranchError"
    if "agent_step e Tool_handler st_prev = Inr (Llm_call, st)"
    using that raised [of n] by simp
  have prev_never: "run_graph e k Tool_handler st_prev \<noteq> Finished st'"
    if p: "agent_step e Tool_handler st_prev = Inr (Llm_call, st)" for k st'
  proof (cases k)
    case 0
    then show ?thesis by simp
  next
    case (Suc j)
    with p have "run_graph e k Tool_handler st_prev = run_graph e j Llm_call st" by simp
    with never [of j st'] show ?thesis by simp
  qed
  from step raised [of n] never prev prev_never show ?thesis
    by (simp add: agent_def)
qed

theorem no_tool_call_is_fatal_witness:
  "llm_with_tools (stub_env ''respond'' [('''', [call_day]), (''hello'', [])])
     (agent_system_message (stub_env ''respond'' [('''', [call_day]), (''hello'', [])])
      # messages (stub_state [HumanMessage ''Respond'', AIMessage '''' [call_day],
          ToolMessage (check_calendar_availability ''Monday'') ''call_1''])) =
     Inr (''hello'', [])
   \<and> agent (stub_env ''respond'' [('''', [call_day]), (''hello'', [])]) (Suc 0)
       (stub_state [HumanMessage ''Respond'', AIMessage '''' [call_day],
          ToolMessage (check_calendar_availability ''Monday'') ''call_1'']) =
     Raised BranchError
   \<and> run_graph (stub_env ''respond'' [('''', [call_day]), (''hello'', [])]) (Suc (Suc 0))
       Tool_handler (stub_state [HumanMessage ''Respond'', AIMessage '''' [call_day]]) =
     Raised BranchError"
proof -
  let ?E = "stub_env ''respond'' [('''', [call_day]), (''hello'', [])]"
  let ?Sp = "stub_state [HumanMessage ''Respond'', AIMessage '''' [call_day]]"
  let ?Sq = "stub_state [HumanMessage ''Respond'', AIMessage '''' [call_day],
          ToolMessage (check_calendar_availability ''Monday'') ''call_1'']"
  have m: "llm_with_tools ?E (agent_system_message ?E # messages ?Sq) = Inr (''hello'', [])"
    by (simp add: eval_defs)
  have p: "agent_step ?E Tool_handler ?Sp = Inr (Llm_call, ?Sq)"
    by (simp add: eval_defs)
  from no_tool_call_is_fatal [OF m, of 0 ?Sp] p
  have "agent ?E (Suc 0) ?Sq = Raised BranchError"
    and "run_graph ?E (Suc (Suc 0)) Tool_handler ?Sp = Raised BranchError"
    by blast+
  with m show ?thesis by blast
qed

text \<open>
  C9. When the last message carries at least one tool call, \<open>should_continue\<close> looks at
  the first one only: it returns \<open>END\<close> if that call is named \<open>Done\<close> and \<open>tool_handler\<close>
  otherwise, whatever the later calls of the message are; so a turn whose \<open>Done\<close> call is
  not the first one goes to the tool handler.
\<close>

theorem should_continue_first_call_only:
  assumes "last_message (messages st) = Inr (AIMessage c (tc # tcs))"
  shows "should_continue st =
           Inr (Some (if name tc = ''Done'' then Route_END else Route_tool_handler))
       \<and> conditional_edges (projr (should_continue st)) =
           Some (if name tc = ''Done'' then END else Tool_handler)
       \<and> (last_message (messages st2) = Inr (AIMessage c2 (tc # tcs2)) \<longrightarrow>
            should_continue st2 = should_continue st)
       \<and> (llm_with_tools e (agent_system_message e # messages st0) = Inr (c, tc # tcs) \<longrightarrow>
            agent_step e Llm_call st0 =
              Inr (if name tc = ''Done'' then END else Tool_handler,
                   st0\<lparr>messages := messages st0 @ [AIMessage c (tc # tcs)]\<rparr>))"
proof -
  have a: "should_continue st =
           Inr (Some (if name tc = ''Done'' then Route_END else Route_tool_handler))"
    using should_continue_AIMessage [OF assms] by simp
  have b: "should_continue st2 = should_continue st"
    if "last_message (messages st2) = Inr (AIMessage c2 (tc # tcs2))"
    using should_continue_AIMessage [OF that] a by simp
  have c: "agent_step e Llm_call st0 =
              Inr (if name tc = ''Done'' then END else Tool_handler,
                   st0\<lparr>messages := messages st0 @ [AIMessage c (tc # tcs)]\<rparr>)"
    if "llm_with_tools e (agent_system_message e # messages st0) = Inr (c, tc # tcs)"
    using agent_step_llm_call [OF that] by simp
  from a b c show ?thesis by simp
qed

theorem should_continue_first_call_only_witness:
  "should_continue (stub_state [HumanMessage ''Respond'', AIMessage '''' [call_day, call_done]]) =
     Inr (Some Route_tool_handler)
   \<and> should_continue (stub_state [AIMessage ''x'' [call_day]]) =
     should_continue (stub_state [HumanMessage ''Respond'', AIMessage '''' [call_day, call_done]])
   \<and> agent_step (stub_env ''respond'' [('''', [call_day, call_done])]) Llm_call
       (stub_state [HumanMessage ''Respond'']) =
     Inr (Tool_handler,
          stub_state [HumanMessage ''Respond'', AIMessage '''' [call_day, call_done]])"
proof -
  let ?E = "stub_env ''respond'' [('''', [call_day, call_done])]"
  let ?Sa = "stub_state [HumanMessage ''Respond'']"
  let ?Sc = "stub_state [HumanMessage ''Respond'', AIMessage '''' [call_day, call_done]]"
  let ?Sb = "stub_state [AIMessage ''x'' [call_day]]"
  have l: "last_message (messages ?Sc) = Inr (AIMessage '''' (call_day # [call_done]))"
    by (simp add: stub_state_def)
  have l2: "last_message (messages ?Sb) = Inr (AIMessage ''x'' (call_day # []))"
    by (simp add: stub_state_def)
  have m: "llm_with_tools ?E (agent_system_message ?E # messages ?Sa) =
      Inr ('''', call_day # [call_done])"
    by (simp add: eval_defs)
  have n: "name call_day \<noteq> ''Done''" by (simp add: call_day_def)
  note t = should_continue_first_call_only [OF l, of ?Sb "''x''" "[]" ?E ?Sa]
  from t n have a: "should_continue ?Sc = Inr (Some Route_tool_handler)" by simp
  from t l2 have b: "should_continue ?Sb = should_continue ?Sc" by blast
  from t m have "agent_step ?E Llm_call ?Sa =
      Inr (if name call_day = ''Done'' then END else Tool_handler,
           ?Sa\<lparr>messages := messages ?Sa @ [AIMessage '''' (call_day # [call_done])]\<rparr>)"
    by blast
  with n have c: "agent_step ?E Llm_call ?Sa = Inr (Tool_handler, ?Sc)"
    by (simp add: stub_state_def)
  from a b c show ?thesis by blast
qed

subsection \<open>The triage router\<close>

text \<open>
  C3. When the router model answers \<open>ignore\<close> or \<open>notify\<close>, the router's command goes to
  \<open>END\<close> and its update has the key \<open>classification_decision\<close> only. The workflow finishes
  with the messages unchanged, for any number of steps and whatever the agent's model is:
  the agent is not entered. A conversation without assistant and tool messages stays so.
\<close>

theorem triage_ignore_notify_ends:
  assumes "parse_email e (email_input st) = Inr (a, t, s, b)"
    and "llm_router e (triage_prompt e a t s b) = Inr r"
    and "classification r = ''ignore'' \<or> classification r = ''notify''"
  shows "triage_router e st =
           Inr \<lparr>goto = Goto_END,
                cmd_update = \<lparr>u_messages = None,
                              u_classification_decision = Some (classification r)\<rparr>\<rparr>
       \<and> overall_workflow e n st =
           Finished (st\<lparr>classification_decision := Some (classification r)\<rparr>)
       \<and> overall_workflow (e\<lparr>llm_with_tools := f\<rparr>) n st = overall_workflow e n st
       \<and> messages (st\<lparr>classification_decision := Some (classification r)\<rparr>) = messages st
       \<and> (filter is_assistant (messages st) = [] \<and> filter is_tool (messages st) = [] \<longrightarrow>
            (\<forall>m \<in> set (messages (st\<lparr>classification_decision := Some (classification r)\<rparr>)).
               \<not> is_assistant m \<and> \<not> is_tool m))"
proof -
  let ?c = "\<lparr>goto = Goto_END,
                cmd_update = \<lparr>u_messages = None,
                              u_classification_decision = Some (classification r)\<rparr>\<rparr>"
  let ?e = "e\<lparr>llm_with_tools := f\<rparr>"
  have tr: "triage_router e st = Inr ?c"
    by (rule triage_router_END [OF assms])
  have p: "parse_email ?e (email_input st) = Inr (a, t, s, b)"
    using assms(1) by simp
  have q: "llm_router ?e (triage_prompt ?e a t s b) = Inr r"
    using assms(2) by (simp add: triage_prompt_def)
  have tr': "triage_router ?e st = Inr ?c"
    by (rule triage_router_END [OF p q assms(3)])
  have upd: "apply_update st (cmd_update ?c) =
      st\<lparr>classification_decision := Some (classification r)\<rparr>"
    by (simp add: apply_update_def)
  have ow: "overall_workflow e n st =
           Finished (st\<lparr>classification_decision := Some (classification r)\<rparr>)"
    unfolding overall_workflow_def tr using upd by simp
  have "overall_workflow ?e n st =
           Finished (st\<lparr>classification_decision := Some (classification r)\<rparr>)"
    unfolding overall_workflow_def tr' using upd by simp
  with ow have ow': "overall_workflow ?e n st = overall_workflow e n st" by simp
  have none: "filter is_assistant (messages st) = [] \<and> filter is_tool (messages st) = [] \<longrightarrow>
            (\<forall>m \<in> set (messages (st\<lparr>classification_decision := Some (classification r)\<rparr>)).
               \<not> is_assistant m \<and> \<not> is_tool m)"
    by (auto simp: filter_empty_conv)
  have msgs: "messages (st\<lparr>classification_decision := Some (classification r)\<rparr>) = messages st"
    by simp
  show ?thesis
    by (intro conjI tr ow ow' none msgs)
qed

theorem triage_ignore_notify_ends_witness:
  "overall_workflow (stub_env ''ignore'' []) 0 (stub_state []) =
     Finished ((stub_state [])\<lparr>classification_decision := Some ''ignore''\<rparr>)
   \<and> overall_workflow (stub_env ''notify'' []) 0 (stub_state []) =
     Finished ((stub_state [])\<lparr>classification_decision := Some ''notify''\<rparr>)
   \<and> messages ((stub_state [])\<lparr>classification_decision := Some ''notify''\<rparr>) = []"
proof -
  have p: "parse_email (stub_env l []) (email_input (stub_state [])) =
      Inr (''alice'', ''john'', ''question'', ''hello'')" for l
    by (simp add: stub_defs)
  have q: "llm_router (stub_env l [])
      (triage_prompt (stub_env l []) ''alice'' ''john'' ''question'' ''hello'') =
      Inr \<lparr>reasoning = ''stub'', classification = l\<rparr>" for l
    by (simp add: stub_defs)
  have i: "classification \<lparr>reasoning = ''stub'', classification = ''ignore''\<rparr> = ''ignore'' \<or>
      classification \<lparr>reasoning = ''stub'', classification = ''ignore''\<rparr> = ''notify''"
    by simp
  have n: "classification \<lparr>reasoning = ''stub'', classification = ''notify''\<rparr> = ''ignore'' \<or>
      classification \<lparr>reasoning = ''stub'', classification = ''notify''\<rparr> = ''notify''"
    by simp
  from triage_ignore_notify_ends [OF p q i, of 0] triage_ignore_notify_ends [OF p q n, of 0]
  show ?thesis by (simp add: stub_state_def)
qed

text \<open>
  C7. When the router model answers with a label other than \<open>ignore\<close>, \<open>respond\<close> and
  \<open>notify\<close>, \<open>triage_router\<close> raises \<open>ValueError\<close> naming the label, and the workflow is
  ended by that exception: there is no command, so nothing is routed.
\<close>

theorem triage_invalid_label_raises:
  assumes "parse_email e (email_input st) = Inr (a, t, s, b)"
    and "llm_router e (triage_prompt e a t s b) = Inr r"
    and "classification r \<notin> {''ignore'', ''respond'', ''notify''}"
  shows "triage_router e st = Inl (ValueError (''Invalid classification: '' @ classification r))
       \<and> overall_workflow e n st =
           Raised (ValueError (''Invalid classification: '' @ classification r))"
  using triage_router_eq [OF assms(1,2)] assms(3)
  by (simp add: overall_workflow_def)

theorem triage_invalid_label_raises_witness:
  "overall_workflow (stub_env ''urgent'' []) 0 (stub_state []) =
     Raised (ValueError ''Invalid classification: urgent'')"
proof -
  have p: "parse_email (stub_env ''urgent'' []) (email_input (stub_state [])) =
      Inr (''alice'', ''john'', ''question'', ''hello'')"
    by (simp add: stub_defs)
  have q: "llm_router (stub_env ''urgent'' [])
      (triage_prompt (stub_env ''urgent'' []) ''alice'' ''john'' ''question'' ''hello'') =
      Inr \<lparr>reasoning = ''stub'', classification = ''urgent''\<rparr>"
    by (simp add: stub_defs)
  have r: "classification \<lparr>reasoning = ''stub'', classification = ''urgent''\<rparr>
      \<notin> {''ignore'', ''respond'', ''notify''}"
    by simp
  from triage_invalid_label_raises [OF p q r, of 0] show ?thesis by simp
qed

text \<open>
  C8. When the router model answers \<open>respond\<close>, the router's command goes to the response
  agent; its update appends exactly one user message, \<open>Respond to the email:\<close> followed by
  the email formatted from subject, author, recipient and thread, and sets
  \<open>classification_decision\<close> to \<open>respond\<close>. The workflow continues as the agent on that
  state.
\<close>

theorem triage_respond_enters_agent:
  assumes "parse_email e (email_input st) = Inr (a, t, s, b)"
    and "llm_router e (triage_prompt e a t s b) = Inr r"
    and "classification r = ''respond''"
  shows "triage_router e st =
           Inr \<lparr>goto = Goto_response_agent,
                cmd_update =
                  \<lparr>u_messages =
                     Some [HumanMessage (''Respond to the email: '' @ [CHR 0x0A, CHR 0x0A]
                                           @ format_email_markdown e s a t b)],
                   u_classification_decision = Some ''respond''\<rparr>\<rparr>
       \<and> apply_update st (cmd_update (projr (triage_router e st))) =
           st\<lparr>messages := messages st @
                  [HumanMessage (''Respond to the email: '' @ [CHR 0x0A, CHR 0x0A]
                                   @ format_email_markdown e s a t b)],
               classification_decision := Some ''respond''\<rparr>
       \<and> overall_workflow e n st =
           agent e n
             (st\<lparr>messages := messages st @
                    [HumanMessage (''Respond to the email: '' @ [CHR 0x0A, CHR 0x0A]
                                     @ format_email_markdown e s a t b)],
                 classification_decision := Some ''respond''\<rparr>)"
  using triage_router_eq [OF assms(1,2)] assms(3)
  by (simp add: overall_workflow_def apply_update_def)

theorem triage_respond_enters_agent_witness:
  "triage_router (stub_env ''respond'' []) (stub_state []) =
     Inr \<lparr>goto = Goto_response_agent,
          cmd_update =
            \<lparr>u_messages =
               Some [HumanMessage (''Respond to the email: '' @ [CHR 0x0A, CHR 0x0A]
                                     @ ''question / alice / john / hello'')],
             u_classification_decision = Some ''respond''\<rparr>\<rparr>
   \<and> overall_workflow (stub_env ''respond'' []) 0 (stub_state []) =
     agent (stub_env ''respond'' []) 0
       ((stub_state [])\<lparr>messages :=
            [HumanMessage (''Respond to the email: '' @ [CHR 0x0A, CHR 0x0A]
                             @ ''question / alice / john / hello'')],
          classification_decision := Some ''respond''\<rparr>)"
proof -
  have p: "parse_email (stub_env ''respond'' []) (email_input (stub_state [])) =
      Inr (''alice'', ''john'', ''question'', ''hello'')"
    by (simp add: stub_defs)
  have q: "llm_router (stub_env ''respond'' [])
      (triage_prompt (stub_env ''respond'' []) ''alice'' ''john'' ''question'' ''hello'') =
      Inr \<lparr>reasoning = ''stub'', classification = ''respond''\<rparr>"
    by (simp add: stub_defs)
  have r: "classification \<lparr>reasoning = ''stub'', classification = ''respond''\<rparr> = ''respond''"
    by simp
  have f: "format_email_markdown (stub_env ''respond'' []) ''question'' ''alice'' ''john''
      ''hello'' = ''question / alice / john / hello''"
    by (simp add: stub_env_def)
  have m: "messages (stub_state []) = []" by (simp add: stub_state_def)
  from triage_respond_enters_agent [OF p q r, of 0] show ?thesis
    by (simp only: f m append_Nil)
qed

subsection \<open>The workflow of the introductory notebook\<close>

text \<open>
  The workflow of the LangGraph 101 notebook is a single pass and has no \<open>Done\<close> tool: its
  \<open>should_continue\<close> sends a model response without tool calls to \<open>END\<close>, and the workflow
  returns the conversation with that response appended.
\<close>

lemma workflow_101_no_tool_call:
  assumes "model_with_tools e msgs = Inr (c, [])"
  shows "should_continue_101 (msgs @ [AIMessage c []]) = Inr Route_END_101
       \<and> workflow_101 e msgs = Inr (msgs @ [AIMessage c []])"
  using assms
  by (simp add: workflow_101_def call_llm_def should_continue_101_def last_message_snoc)

end
